theory Spec2Isabelle
  imports Complex_Main
begin

section \<open>Lane-change decider: data model\<close>

text \<open>
  The embedding follows \<^verbatim>\<open>modules/planning/common/change_lane_decider.cc\<close>.
  A C++ \<^verbatim>\<open>double\<close> (timestamp, distance, speed, angle) is modelled by the
  \<^typ>\<open>real\<close> it denotes, and every arithmetic operation on doubles returns the
  rounding of the exact result (section on double-precision arithmetic below); the
  process-wide \<^verbatim>\<open>PlanningContext\<close> status, the clock reading and the gflags are
  passed explicitly; a \<^verbatim>\<open>std::list\<close> is a HOL list.
\<close>

text \<open>
  Modelled from the spec: the protobuf enum \<^verbatim>\<open>ChangeLaneStatus::Status\<close> is declared
  outside the source file. The three named phases are the ones the code compares
  against; \<open>STATUS_UNRECOGNIZED\<close> stands for any other stored value, which the code
  handles in its defensive \<^verbatim>\<open>Unknown state\<close> branches.
\<close>

datatype Status =
    IN_CHANGE_LANE
  | CHANGE_LANE_FAILED
  | CHANGE_LANE_SUCCESS
  | STATUS_UNRECOGNIZED

text \<open>
  Modelled from the spec: the classes and messages below are declared in headers
  outside the source file. Each record lists the accessors that the source calls on
  the class, under the accessor's name.

  The persisted message. \<open>status = None\<close> is \<^verbatim>\<open>!has_status()\<close>, the state before
  the first decision.
\<close>

record ChangeLaneStatus =
  status :: "Status option"
  path_id :: string
  timestamp :: real

record Flags =
  reckless_change_lane :: bool
  change_lane_fail_freeze_time :: real
  change_lane_success_freeze_time :: real

text \<open>
  Modelled from the spec: the gear enum \<^verbatim>\<open>canbus::Chassis::GearPosition\<close> is declared
  outside the source file; the code only asks whether the gear is \<open>GEAR_REVERSE\<close>.
\<close>

datatype GearPosition =
    GEAR_NEUTRAL
  | GEAR_DRIVE
  | GEAR_REVERSE
  | GEAR_PARKING
  | GEAR_LOW
  | GEAR_INVALID
  | GEAR_NONE

record VehicleState =
  linear_velocity :: real
  heading :: real
  gear :: GearPosition

record SLBoundary =
  start_s :: real
  end_s :: real

text \<open>
  An obstacle of the path decision. \<open>ObstacleId\<close> is \<^verbatim>\<open>Id()\<close>. \<open>Trajectory\<close> holds the
  heading \<^verbatim>\<open>theta\<close> of each predicted trajectory point; \<^verbatim>\<open>HasTrajectory()\<close> is its
  being non-empty.
\<close>

record Obstacle =
  ObstacleId :: string
  IsVirtual :: bool
  IsStatic :: bool
  PerceptionPolygon :: "(real \<times> real) list"
  Trajectory :: "real list"
  speed :: real
  IsLaneChangeBlocking :: bool

text \<open>
  One candidate. \<open>Lanes_Id\<close> is \<^verbatim>\<open>Lanes().Id()\<close>. \<open>XYToSL\<close> is the projection of the
  candidate's reference line, \<^verbatim>\<open>reference_line().XYToSL\<close>, taken as given; \<open>obstacles\<close>
  is \<^verbatim>\<open>path_decision()->obstacles().Items()\<close> in order.
\<close>

record ReferenceLineInfo =
  IsChangeLanePath :: bool
  Lanes_Id :: string
  AdcSlBoundary :: SLBoundary
  vehicle_state :: VehicleState
  XYToSL :: "real \<times> real \<Rightarrow> real \<times> real"
  obstacles :: "Obstacle list"

text \<open>
  The three \<^verbatim>\<open>return false\<close> sites of \<^verbatim>\<open>Apply\<close>, told apart by their log lines:
  "Reference lines empty", "Unknown state", "The vehicle is not on any reference line".
\<close>

datatype ApplyError = EmptyInput | UnknownState | NoActiveLane

section \<open>Double-precision arithmetic\<close>

text \<open>
  IEEE 754 binary64 with the default rounding, to nearest with ties to even. A non-zero
  \<open>x\<close> lies in the binade of exponent \<open>\<lfloor>log 2 \<bar>x\<bar>\<rfloor>\<close>, at least \<open>-1022\<close> (below
  that the subnormal spacing applies); the doubles of that binade are the integer
  multiples of \<open>2\<close> to the power \<open>binade x - 52\<close>, and \<open>round_double x\<close> is the
  nearest of them. The sum, difference, product and quotient of two doubles are the
  roundings of the exact results. Infinities and NaN are outside the model: the
  magnitudes are taken to stay within the range of finite doubles.
\<close>

definition round_ties_even :: "real \<Rightarrow> int" where
  "round_ties_even y =
     (if y - of_int \<lfloor>y\<rfloor> < 1 / 2 then \<lfloor>y\<rfloor>
      else if 1 / 2 < y - of_int \<lfloor>y\<rfloor> then \<lfloor>y\<rfloor> + 1
      else if even \<lfloor>y\<rfloor> then \<lfloor>y\<rfloor>
      else \<lfloor>y\<rfloor> + 1)"

definition binade :: "real \<Rightarrow> int" where
  "binade x = max \<lfloor>log 2 \<bar>x\<bar>\<rfloor> (- 1022)"

definition round_double :: "real \<Rightarrow> real" where
  "round_double x =
     (if x = 0 then 0
      else of_int (round_ties_even (x / 2 powr (of_int (binade x) - 52)))
             * 2 powr (of_int (binade x) - 52))"

definition dadd :: "real \<Rightarrow> real \<Rightarrow> real" where
  "dadd a b = round_double (a + b)"

definition dsub :: "real \<Rightarrow> real \<Rightarrow> real" where
  "dsub a b = round_double (a - b)"

definition dmul :: "real \<Rightarrow> real \<Rightarrow> real" where
  "dmul a b = round_double (a * b)"

definition ddiv :: "real \<Rightarrow> real \<Rightarrow> real" where
  "ddiv a b = round_double (a / b)"

text \<open>The constant \<^verbatim>\<open>M_PI\<close>: the double nearest to \<open>\<pi>\<close>.\<close>

definition M_PI :: real where
  "M_PI = 884279719003555 / 2 ^ 48"

section \<open>The state machine\<close>

definition UpdateStatus :: "real \<Rightarrow> Status \<Rightarrow> string \<Rightarrow> ChangeLaneStatus \<Rightarrow> ChangeLaneStatus" where
  "UpdateStatus ts status_code pid change_lane_status =
     change_lane_status\<lparr>timestamp := ts, path_id := pid, status := Some status_code\<rparr>"

text \<open>
  The loop of \<^verbatim>\<open>PrioritizeChangeLane\<close>: \<open>passed\<close> are the entries the iterator has
  gone over. At the first change-lane entry it is spliced to the front; reaching the
  end leaves the list as it was.
\<close>

fun prioritize_loop :: "ReferenceLineInfo list \<Rightarrow> ReferenceLineInfo list \<Rightarrow> ReferenceLineInfo list" where
  "prioritize_loop passed [] = passed"
| "prioritize_loop passed (info # rest) =
     (if IsChangeLanePath info then info # passed @ rest
      else prioritize_loop (passed @ [info]) rest)"

definition PrioritizeChangeLane :: "ReferenceLineInfo list \<Rightarrow> ReferenceLineInfo list" where
  "PrioritizeChangeLane reference_line_info =
     (if reference_line_info = [] then reference_line_info
      else prioritize_loop [] reference_line_info)"

fun RemoveChangeLane :: "ReferenceLineInfo list \<Rightarrow> ReferenceLineInfo list" where
  "RemoveChangeLane [] = []"
| "RemoveChangeLane (info # rest) =
     (if IsChangeLanePath info then RemoveChangeLane rest
      else info # RemoveChangeLane rest)"

fun GetCurrentPathId :: "ReferenceLineInfo list \<Rightarrow> string" where
  "GetCurrentPathId [] = ''''"
| "GetCurrentPathId (info # rest) =
     (if \<not> IsChangeLanePath info then Lanes_Id info else GetCurrentPathId rest)"

text \<open>
  \<^verbatim>\<open>Apply\<close> returns its verdict, the persisted status it leaves and the candidate
  list it leaves. \<open>now\<close> is the one reading of the clock.
\<close>

definition Apply ::
  "Flags \<Rightarrow> real \<Rightarrow> ChangeLaneStatus \<Rightarrow> ReferenceLineInfo list
     \<Rightarrow> (ApplyError + unit) \<times> ChangeLaneStatus \<times> ReferenceLineInfo list" where
  "Apply flags now prev_status reference_line_info =
     (if reference_line_info = [] then
        (Inl EmptyInput, prev_status, reference_line_info)
      else if reckless_change_lane flags then
        (Inr (), prev_status, PrioritizeChangeLane reference_line_info)
      else
        (case status prev_status of
           None \<Rightarrow>
             (Inr (),
              UpdateStatus now CHANGE_LANE_SUCCESS (GetCurrentPathId reference_line_info) prev_status,
              reference_line_info)
         | Some st \<Rightarrow>
             (let has_change_lane = (length reference_line_info > 1) in
              if \<not> has_change_lane then
                (let pid = Lanes_Id (hd reference_line_info) in
                 if st = CHANGE_LANE_SUCCESS then
                   (Inr (), prev_status, reference_line_info)
                 else if st = IN_CHANGE_LANE then
                   (Inr (), UpdateStatus now CHANGE_LANE_SUCCESS pid prev_status, reference_line_info)
                 else if st = CHANGE_LANE_FAILED then
                   (Inr (), prev_status, reference_line_info)
                 else
                   (Inl UnknownState, prev_status, reference_line_info))
              else
                (let current_path_id = GetCurrentPathId reference_line_info in
                 if current_path_id = [] then
                   (Inl NoActiveLane, prev_status, reference_line_info)
                 else if st = IN_CHANGE_LANE then
                   (if path_id prev_status = current_path_id then
                      (Inr (), prev_status, PrioritizeChangeLane reference_line_info)
                    else
                      (Inr (),
                       UpdateStatus now CHANGE_LANE_SUCCESS current_path_id prev_status,
                       RemoveChangeLane reference_line_info))
                 else if st = CHANGE_LANE_FAILED then
                   (if dsub now (timestamp prev_status) < change_lane_fail_freeze_time flags then
                      (Inr (), prev_status, RemoveChangeLane reference_line_info)
                    else
                      (Inr (),
                       UpdateStatus now IN_CHANGE_LANE current_path_id prev_status,
                       reference_line_info))
                 else if st = CHANGE_LANE_SUCCESS then
                   (if dsub now (timestamp prev_status) < change_lane_success_freeze_time flags then
                      (Inr (), prev_status, RemoveChangeLane reference_line_info)
                    else
                      (Inr (),
                       UpdateStatus now IN_CHANGE_LANE current_path_id prev_status,
                       PrioritizeChangeLane reference_line_info))
                 else
                   (Inl UnknownState, prev_status, reference_line_info)))))"

section \<open>The hysteresis filter\<close>

definition HysteresisFilter :: "real \<Rightarrow> real \<Rightarrow> real \<Rightarrow> bool \<Rightarrow> bool" where
  "HysteresisFilter obstacle_distance safe_distance distance_buffer is_obstacle_blocking =
     (if is_obstacle_blocking then obstacle_distance < dadd safe_distance distance_buffer
      else obstacle_distance < dsub safe_distance distance_buffer)"

section \<open>The clearance check\<close>

text \<open>The value of \<^verbatim>\<open>std::numeric_limits<double>::max()\<close>.\<close>

definition DBL_MAX :: real where
  "DBL_MAX = (2 - 1 / 2 ^ 52) * 2 ^ 1023"

text \<open>
  The inner loop over the polygon's points: each point is projected and the four
  running bounds \<open>(start_s, end_s, start_l, end_l)\<close> are updated with
  \<^verbatim>\<open>fmin\<close>/\<^verbatim>\<open>fmax\<close>.
\<close>

fun sl_bounds ::
  "(real \<times> real \<Rightarrow> real \<times> real) \<Rightarrow> (real \<times> real) list
     \<Rightarrow> real \<times> real \<times> real \<times> real \<Rightarrow> real \<times> real \<times> real \<times> real" where
  "sl_bounds proj [] acc = acc"
| "sl_bounds proj (p # ps) (s_lo, s_hi, l_lo, l_hi) =
     sl_bounds proj ps
       (min s_lo (fst (proj p)), max s_hi (fst (proj p)),
        min l_lo (snd (proj p)), max l_hi (snd (proj p)))"

definition obstacle_bounds :: "ReferenceLineInfo \<Rightarrow> Obstacle \<Rightarrow> real \<times> real \<times> real \<times> real" where
  "obstacle_bounds info obstacle =
     sl_bounds (XYToSL info) (PerceptionPolygon obstacle)
       (DBL_MAX, - DBL_MAX, DBL_MAX, - DBL_MAX)"

definition kLateralShift :: real where
  "kLateralShift = 5 / 2"

text \<open>
  The \<^verbatim>\<open>continue\<close> of lines 193 to 198: on a change-lane candidate an obstacle wholly
  outside the lateral corridor is passed over without a write.
\<close>

definition lateral_skip :: "ReferenceLineInfo \<Rightarrow> Obstacle \<Rightarrow> bool" where
  "lateral_skip info obstacle =
     (case obstacle_bounds info obstacle of
        (s_lo, s_hi, l_lo, l_hi) \<Rightarrow>
          IsChangeLanePath info \<and> (l_hi < - kLateralShift \<or> l_lo > kLateralShift))"

text \<open>
  The direction estimate. \<open>NormalizeAngle\<close> is \<^verbatim>\<open>common::math::NormalizeAngle\<close>,
  a helper outside the source file, taken as a parameter.
\<close>

definition same_direction :: "(real \<Rightarrow> real) \<Rightarrow> VehicleState \<Rightarrow> Obstacle \<Rightarrow> bool" where
  "same_direction NormalizeAngle vs obstacle =
     (if Trajectory obstacle \<noteq> [] then
        (let obstacle_moving_direction = hd (Trajectory obstacle);
             vehicle_moving_direction =
               (if gear vs = GEAR_REVERSE then NormalizeAngle (dadd (heading vs) M_PI)
                else heading vs);
             heading_difference =
               \<bar>NormalizeAngle (dsub obstacle_moving_direction vehicle_moving_direction)\<bar>
         in heading_difference < ddiv M_PI 2)
      else True)"

definition kForwardSafeDistance :: "bool \<Rightarrow> real \<Rightarrow> real \<Rightarrow> real" where
  "kForwardSafeDistance same ego_v obstacle_speed =
     (if same then max 6 (dmul (dsub ego_v obstacle_speed) 3)
      else max 50 (dmul (dadd ego_v obstacle_speed) 5))"

definition kBackwardSafeDistance :: "bool \<Rightarrow> real \<Rightarrow> real \<Rightarrow> real" where
  "kBackwardSafeDistance same ego_v obstacle_speed =
     (if same then max 8 (dmul (dsub obstacle_speed ego_v) 3) else 1)"

definition kDistanceBuffer :: real where
  "kDistanceBuffer = 1 / 2"

text \<open>
  The condition of lines 242 to 245: both hysteresis checks, each with the obstacle's
  stored flag as memory.
\<close>

definition both_gaps_unsafe :: "(real \<Rightarrow> real) \<Rightarrow> ReferenceLineInfo \<Rightarrow> Obstacle \<Rightarrow> bool" where
  "both_gaps_unsafe NormalizeAngle info obstacle =
     (case obstacle_bounds info obstacle of
        (s_lo, s_hi, l_lo, l_hi) \<Rightarrow>
          (let ego_start_s = start_s (AdcSlBoundary info);
               ego_end_s = end_s (AdcSlBoundary info);
               ego_v = \<bar>linear_velocity (vehicle_state info)\<bar>;
               same = same_direction NormalizeAngle (vehicle_state info) obstacle
           in HysteresisFilter (dsub ego_start_s s_hi)
                (kBackwardSafeDistance same ego_v (speed obstacle))
                kDistanceBuffer (IsLaneChangeBlocking obstacle)
              \<and> HysteresisFilter (dsub s_lo ego_end_s)
                (kForwardSafeDistance same ego_v (speed obstacle))
                kDistanceBuffer (IsLaneChangeBlocking obstacle)))"

text \<open>
  \<^verbatim>\<open>path_decision()->Find(id)->SetLaneChangeBlocking(b)\<close>: the write goes to the
  obstacle registered under the identifier. The identifiers passed are those of
  listed obstacles, so the lookup finds one.
\<close>

fun SetLaneChangeBlocking :: "string \<Rightarrow> bool \<Rightarrow> Obstacle list \<Rightarrow> Obstacle list" where
  "SetLaneChangeBlocking oid b [] = []"
| "SetLaneChangeBlocking oid b (obstacle # rest) =
     (if ObstacleId obstacle = oid then obstacle\<lparr>IsLaneChangeBlocking := b\<rparr> # rest
      else obstacle # SetLaneChangeBlocking oid b rest)"

text \<open>
  The outer loop, over the positions of \<^verbatim>\<open>Items()\<close> still to visit. Each obstacle is
  read from the live store, so a write made earlier in the scan is seen.
\<close>

fun clear_loop :: "(real \<Rightarrow> real) \<Rightarrow> ReferenceLineInfo \<Rightarrow> nat list \<Rightarrow> bool \<times> ReferenceLineInfo" where
  "clear_loop NormalizeAngle info [] = (True, info)"
| "clear_loop NormalizeAngle info (i # rest) =
     (if IsVirtual (obstacles info ! i) \<or> IsStatic (obstacles info ! i) then
        clear_loop NormalizeAngle info rest
      else if lateral_skip info (obstacles info ! i) then
        clear_loop NormalizeAngle info rest
      else if both_gaps_unsafe NormalizeAngle info (obstacles info ! i) then
        (False,
         info\<lparr>obstacles :=
           SetLaneChangeBlocking (ObstacleId (obstacles info ! i)) True (obstacles info)\<rparr>)
      else
        clear_loop NormalizeAngle
          (info\<lparr>obstacles :=
             SetLaneChangeBlocking (ObstacleId (obstacles info ! i)) False (obstacles info)\<rparr>)
          rest)"

definition IsClearToChangeLane :: "(real \<Rightarrow> real) \<Rightarrow> ReferenceLineInfo \<Rightarrow> bool \<times> ReferenceLineInfo" where
  "IsClearToChangeLane NormalizeAngle info =
     clear_loop NormalizeAngle info [0 ..< length (obstacles info)]"

section \<open>Write logs\<close>

text \<open>
  To count writes, the calls of \<^verbatim>\<open>UpdateStatus\<close> that \<^verbatim>\<open>Apply\<close> makes are listed in
  order, each with its three arguments, branch by branch as in \<open>Apply\<close>; likewise
  the calls of \<^verbatim>\<open>SetLaneChangeBlocking\<close> that the clearance loop makes. Replaying a
  log on the state of entry gives the state the operation leaves.
\<close>

definition Apply_updates ::
  "Flags \<Rightarrow> real \<Rightarrow> ChangeLaneStatus \<Rightarrow> ReferenceLineInfo list \<Rightarrow> (real \<times> Status \<times> string) list" where
  "Apply_updates flags now prev_status reference_line_info =
     (if reference_line_info = [] then []
      else if reckless_change_lane flags then []
      else
        (case status prev_status of
           None \<Rightarrow> [(now, CHANGE_LANE_SUCCESS, GetCurrentPathId reference_line_info)]
         | Some st \<Rightarrow>
             (let has_change_lane = (length reference_line_info > 1) in
              if \<not> has_change_lane then
                (let pid = Lanes_Id (hd reference_line_info) in
                 if st = CHANGE_LANE_SUCCESS then []
                 else if st = IN_CHANGE_LANE then [(now, CHANGE_LANE_SUCCESS, pid)]
                 else if st = CHANGE_LANE_FAILED then []
                 else [])
              else
                (let current_path_id = GetCurrentPathId reference_line_info in
                 if current_path_id = [] then []
                 else if st = IN_CHANGE_LANE then
                   (if path_id prev_status = current_path_id then []
                    else [(now, CHANGE_LANE_SUCCESS, current_path_id)])
                 else if st = CHANGE_LANE_FAILED then
                   (if dsub now (timestamp prev_status) < change_lane_fail_freeze_time flags then []
                    else [(now, IN_CHANGE_LANE, current_path_id)])
                 else if st = CHANGE_LANE_SUCCESS then
                   (if dsub now (timestamp prev_status) < change_lane_success_freeze_time flags then []
                    else [(now, IN_CHANGE_LANE, current_path_id)])
                 else []))))"

fun replay_updates :: "ChangeLaneStatus \<Rightarrow> (real \<times> Status \<times> string) list \<Rightarrow> ChangeLaneStatus" where
  "replay_updates st [] = st"
| "replay_updates st ((ts, status_code, pid) # rest) =
     replay_updates (UpdateStatus ts status_code pid st) rest"

fun clear_loop_writes :: "(real \<Rightarrow> real) \<Rightarrow> ReferenceLineInfo \<Rightarrow> nat list \<Rightarrow> (string \<times> bool) list" where
  "clear_loop_writes NormalizeAngle info [] = []"
| "clear_loop_writes NormalizeAngle info (i # rest) =
     (if IsVirtual (obstacles info ! i) \<or> IsStatic (obstacles info ! i) then
        clear_loop_writes NormalizeAngle info rest
      else if lateral_skip info (obstacles info ! i) then
        clear_loop_writes NormalizeAngle info rest
      else if both_gaps_unsafe NormalizeAngle info (obstacles info ! i) then
        [(ObstacleId (obstacles info ! i), True)]
      else
        (ObstacleId (obstacles info ! i), False) #
        clear_loop_writes NormalizeAngle
          (info\<lparr>obstacles :=
             SetLaneChangeBlocking (ObstacleId (obstacles info ! i)) False (obstacles info)\<rparr>)
          rest)"

definition IsClearToChangeLane_writes :: "(real \<Rightarrow> real) \<Rightarrow> ReferenceLineInfo \<Rightarrow> (string \<times> bool) list" where
  "IsClearToChangeLane_writes NormalizeAngle info =
     clear_loop_writes NormalizeAngle info [0 ..< length (obstacles info)]"

fun replay_writes :: "Obstacle list \<Rightarrow> (string \<times> bool) list \<Rightarrow> Obstacle list" where
  "replay_writes os [] = os"
| "replay_writes os ((oid, b) # rest) = replay_writes (SetLaneChangeBlocking oid b os) rest"

section \<open>Vocabulary of the clearance properties\<close>

text \<open>
  An obstacle is evaluated when the loop body reaches the hysteresis checks for it:
  it is neither virtual nor static and is not passed over by the lateral test. It
  blocks when it is evaluated and both checks judge the gap unsafe. \<open>mark_clear\<close>
  is what the scan does to an obstacle that does not block.
\<close>

definition evaluated :: "ReferenceLineInfo \<Rightarrow> Obstacle \<Rightarrow> bool" where
  "evaluated info obstacle =
     (\<not> IsVirtual obstacle \<and> \<not> IsStatic obstacle \<and> \<not> lateral_skip info obstacle)"

definition blocks :: "(real \<Rightarrow> real) \<Rightarrow> ReferenceLineInfo \<Rightarrow> Obstacle \<Rightarrow> bool" where
  "blocks NormalizeAngle info obstacle =
     (evaluated info obstacle \<and> both_gaps_unsafe NormalizeAngle info obstacle)"

definition mark_clear :: "ReferenceLineInfo \<Rightarrow> Obstacle \<Rightarrow> Obstacle" where
  "mark_clear info obstacle =
     (if evaluated info obstacle then obstacle\<lparr>IsLaneChangeBlocking := False\<rparr> else obstacle)"

section \<open>Sample inputs\<close>

text \<open>A candidate with the given change-lane mark and lane id, and no obstacles.\<close>

definition candidate :: "bool \<Rightarrow> string \<Rightarrow> ReferenceLineInfo" where
  "candidate change lid =
     \<lparr>IsChangeLanePath = change, Lanes_Id = lid,
      AdcSlBoundary = \<lparr>start_s = 0, end_s = 0\<rparr>,
      vehicle_state = \<lparr>linear_velocity = 0, heading = 0, gear = GEAR_DRIVE\<rparr>,
      XYToSL = (\<lambda>p. p), obstacles = []\<rparr>"

definition normal_flags :: Flags where
  "normal_flags =
     \<lparr>reckless_change_lane = False, change_lane_fail_freeze_time = 2,
      change_lane_success_freeze_time = 2\<rparr>"

definition reckless_flags :: Flags where
  "reckless_flags =
     \<lparr>reckless_change_lane = True, change_lane_fail_freeze_time = 2,
      change_lane_success_freeze_time = 2\<rparr>"

definition stored :: "Status \<Rightarrow> string \<Rightarrow> real \<Rightarrow> ChangeLaneStatus" where
  "stored st pid ts = \<lparr>status = Some st, path_id = pid, timestamp = ts\<rparr>"

definition unset_status :: ChangeLaneStatus where
  "unset_status = \<lparr>status = None, path_id = [], timestamp = 0\<rparr>"

text \<open>A moving obstacle whose polygon is the segment from \<open>(s1, l)\<close> to \<open>(s2, l)\<close>.\<close>

definition moving_obstacle :: "string \<Rightarrow> real \<Rightarrow> real \<Rightarrow> real \<Rightarrow> bool \<Rightarrow> Obstacle" where
  "moving_obstacle oid s1 s2 l blocking =
     \<lparr>ObstacleId = oid, IsVirtual = False, IsStatic = False,
      PerceptionPolygon = [(s1, l), (s2, l)], Trajectory = [], speed = 5,
      IsLaneChangeBlocking = blocking\<rparr>"

text \<open>
  A candidate along the x axis (the projection is the identity), the ego vehicle
  between \<open>s = 10\<close> and \<open>s = 15\<close> at speed 5.
\<close>

definition scene :: "bool \<Rightarrow> Obstacle list \<Rightarrow> ReferenceLineInfo" where
  "scene change obs =
     \<lparr>IsChangeLanePath = change, Lanes_Id = ''A'',
      AdcSlBoundary = \<lparr>start_s = 10, end_s = 15\<rparr>,
      vehicle_state = \<lparr>linear_velocity = 5, heading = 0, gear = GEAR_DRIVE\<rparr>,
      XYToSL = (\<lambda>p. p), obstacles = obs\<rparr>"

text \<open>
  Doubles written out exactly: the doubles nearest to 0.1, to 0.7, to 2.001 and to
  0.001, and the double that the addition \<^verbatim>\<open>0.1 + 0.7\<close> returns.
\<close>

definition double_0_1 :: real where
  "double_0_1 = 3602879701896397 / 2 ^ 55"

definition double_0_7 :: real where
  "double_0_7 = 3152519739159347 / 2 ^ 52"

definition double_0_1_plus_0_7 :: real where
  "double_0_1_plus_0_7 = 7205759403792793 / 2 ^ 53"

definition double_2_001 :: real where
  "double_2_001 = 4505851427184181 / 2 ^ 51"

definition double_0_001 :: real where
  "double_0_001 = 1152921504606847 / 2 ^ 60"

section \<open>Auxiliary facts\<close>

subsection \<open>Rounding\<close>

lemma round_ties_even_bounds: "\<lfloor>y\<rfloor> \<le> round_ties_even y" "round_ties_even y \<le> \<lfloor>y\<rfloor> + 1"
  by (simp_all add: round_ties_even_def)

lemma round_ties_even_of_int [simp]: "round_ties_even (of_int n) = n"
  by (simp add: round_ties_even_def)

lemma round_ties_even_numeral [simp]: "round_ties_even (numeral n) = numeral n"
  using round_ties_even_of_int [of "numeral n"] by simp

lemma round_ties_even_mono:
  assumes "y \<le> z"
  shows "round_ties_even y \<le> round_ties_even z"
proof (cases "\<lfloor>y\<rfloor> = \<lfloor>z\<rfloor>")
  case True
  then show ?thesis
    using assms by (auto simp: round_ties_even_def)
next
  case False
  then have "\<lfloor>y\<rfloor> + 1 \<le> \<lfloor>z\<rfloor>"
    using floor_mono [OF assms] by linarith
  then show ?thesis
    using round_ties_even_bounds(2) [of y] round_ties_even_bounds(1) [of z] by linarith
qed

lemma round_ties_even_minus: "round_ties_even (- y) = - round_ties_even y"
proof (cases "y = of_int \<lfloor>y\<rfloor>")
  case True
  then obtain n where "y = of_int n" by metis
  then show ?thesis
    by (metis of_int_minus round_ties_even_of_int)
next
  case False
  then have lt: "of_int \<lfloor>y\<rfloor> < y" by (metis of_int_floor_le order_less_le)
  have ub: "y < of_int \<lfloor>y\<rfloor> + 1" by linarith
  have fl: "\<lfloor>- y\<rfloor> = - \<lfloor>y\<rfloor> - 1"
  proof (rule floor_unique)
    have c: "real_of_int (- \<lfloor>y\<rfloor> - 1) = - real_of_int \<lfloor>y\<rfloor> - 1" by simp
    show "of_int (- \<lfloor>y\<rfloor> - 1) \<le> - y" unfolding c using ub by linarith
    show "- y < of_int (- \<lfloor>y\<rfloor> - 1) + 1" unfolding c using lt by linarith
  qed
  show ?thesis
    unfolding round_ties_even_def fl
    by (auto simp: algebra_simps)
qed


lemma binade_upper:
  assumes "0 < x"
  shows "x < 2 powr (of_int (binade x) + 1)"
proof -
  have "x < 2 powr (of_int \<lfloor>log 2 x\<rfloor> + 1)"
    using floor_log_eq_powr_iff [of x 2 "\<lfloor>log 2 x\<rfloor>"] assms by simp
  also have "\<dots> \<le> 2 powr (of_int (binade x) + 1)"
    using assms by (simp add: binade_def)
  finally show ?thesis .
qed

lemma binade_lower:
  assumes "0 < x" and "- 1022 \<le> \<lfloor>log 2 x\<rfloor>"
  shows "2 powr of_int (binade x) \<le> x"
proof -
  have "binade x = \<lfloor>log 2 x\<rfloor>"
    using assms by (simp add: binade_def)
  then show ?thesis
    using floor_log_eq_powr_iff [of x 2 "\<lfloor>log 2 x\<rfloor>"] assms by simp
qed

lemma binade_mono:
  assumes "0 < x" and "x \<le> y"
  shows "binade x \<le> binade y"
proof -
  have "log 2 x \<le> log 2 y" using assms by simp
  then have "\<lfloor>log 2 x\<rfloor> \<le> \<lfloor>log 2 y\<rfloor>" by (rule floor_mono)
  then show ?thesis using assms by (simp add: binade_def)
qed

lemma round_double_pos:
  assumes "0 < x"
  shows "round_double x =
           of_int (round_ties_even (x / 2 powr (of_int (binade x) - 52)))
             * 2 powr (of_int (binade x) - 52)"
  using assms by (simp add: round_double_def)

lemma scale_53: "2 powr (g + 1) / 2 powr (g - 52) = (2::real) ^ 53"
proof -
  have "2 powr (g + 1) / 2 powr (g - 52) = (2::real) powr ((g + 1) - (g - 52))"
    by (simp only: powr_diff)
  also have "\<dots> = 2 powr 53" by simp
  finally show ?thesis by simp
qed

lemma scale_52: "2 powr g / 2 powr (g - 52) = (2::real) ^ 52"
proof -
  have "2 powr g / 2 powr (g - 52) = (2::real) powr (g - (g - 52))"
    by (simp only: powr_diff)
  also have "\<dots> = 2 powr 52" by simp
  finally show ?thesis by simp
qed

lemma round_double_nonneg:
  assumes "0 < x"
  shows "0 \<le> round_double x"
proof -
  have "0 \<le> x / 2 powr (of_int (binade x) - 52)" using assms by simp
  then have "0 \<le> \<lfloor>x / 2 powr (of_int (binade x) - 52)\<rfloor>" by simp
  then have "0 \<le> round_ties_even (x / 2 powr (of_int (binade x) - 52))"
    using round_ties_even_bounds(1) [of "x / 2 powr (of_int (binade x) - 52)"] by linarith
  then show ?thesis
    unfolding round_double_pos [OF assms] by simp
qed

lemma round_double_upper:
  assumes "0 < x"
  shows "round_double x \<le> 2 powr (of_int (binade x) + 1)"
proof -
  let ?u = "2 powr (of_int (binade x) - 52) :: real"
  have u: "0 < ?u" by simp
  have "x / ?u \<le> 2 powr (of_int (binade x) + 1) / ?u"
    using binade_upper [OF assms] u by (simp add: divide_right_mono)
  then have "x / ?u \<le> of_int (2 ^ 53)"
    by (simp add: scale_53)
  then have "round_ties_even (x / ?u) \<le> 2 ^ 53"
    using round_ties_even_mono [of "x / ?u" "of_int (2 ^ 53)"] by simp
  then have "real_of_int (round_ties_even (x / ?u)) \<le> 2 ^ 53"
    by (metis of_int_le_iff of_int_numeral of_int_power)
  then have "real_of_int (round_ties_even (x / ?u)) * ?u \<le> 2 ^ 53 * ?u"
    using u by (simp only: mult_right_mono less_imp_le)
  also have "2 ^ 53 * ?u = 2 powr (of_int (binade x) + 1)"
    using scale_53 [of "of_int (binade x)"] u by (simp add: field_simps)
  finally show ?thesis
    unfolding round_double_pos [OF assms] .
qed

lemma round_double_lower:
  assumes "0 < x" and "- 1022 \<le> \<lfloor>log 2 x\<rfloor>"
  shows "2 powr of_int (binade x) \<le> round_double x"
proof -
  let ?u = "2 powr (of_int (binade x) - 52) :: real"
  have u: "0 < ?u" by simp
  have "2 powr of_int (binade x) / ?u \<le> x / ?u"
    using binade_lower [OF assms] u by (simp add: divide_right_mono)
  then have "of_int (2 ^ 52) \<le> x / ?u"
    by (simp add: scale_52)
  then have "2 ^ 52 \<le> round_ties_even (x / ?u)"
    using round_ties_even_mono [of "of_int (2 ^ 52)" "x / ?u"] by simp
  then have "2 ^ 52 \<le> real_of_int (round_ties_even (x / ?u))"
    by (metis of_int_le_iff of_int_numeral of_int_power)
  then have le: "2 ^ 52 * ?u \<le> real_of_int (round_ties_even (x / ?u)) * ?u"
    using u by (simp only: mult_right_mono less_imp_le)
  have "2 powr of_int (binade x) = 2 ^ 52 * ?u"
    using scale_52 [of "of_int (binade x)"] u by (simp add: field_simps)
  also note le
  finally show ?thesis
    unfolding round_double_pos [OF assms(1)] .
qed

lemma round_double_mono_pos:
  assumes "0 < x" and "x \<le> y"
  shows "round_double x \<le> round_double y"
proof (cases "binade x = binade y")
  case True
  have y: "0 < y" using assms by linarith
  let ?u = "2 powr (of_int (binade y) - 52) :: real"
  have "x / ?u \<le> y / ?u" using assms by (simp add: divide_right_mono)
  then have "round_ties_even (x / ?u) \<le> round_ties_even (y / ?u)"
    by (rule round_ties_even_mono)
  then have "real_of_int (round_ties_even (x / ?u)) * ?u \<le> real_of_int (round_ties_even (y / ?u)) * ?u"
    by (simp add: mult_right_mono)
  then show ?thesis
    unfolding round_double_pos [OF assms(1)] round_double_pos [OF y] True .
next
  case False
  have y: "0 < y" using assms by linarith
  have lt: "binade x + 1 \<le> binade y"
    using False binade_mono [OF assms] by linarith
  have "- 1022 \<le> binade x" by (simp add: binade_def)
  then have "- 1022 < binade y" using lt by linarith
  then have normal: "- 1022 \<le> \<lfloor>log 2 y\<rfloor>"
    using y by (simp add: binade_def max_def split: if_splits)
  have "round_double x \<le> 2 powr (of_int (binade x) + 1)"
    by (rule round_double_upper [OF assms(1)])
  also have "\<dots> \<le> 2 powr of_int (binade y)"
  proof -
    have "real_of_int (binade x) + 1 \<le> real_of_int (binade y)"
      using lt by (metis of_int_1 of_int_add of_int_le_iff)
    then show ?thesis by simp
  qed
  also have "\<dots> \<le> round_double y"
    by (rule round_double_lower [OF y normal])
  finally show ?thesis .
qed

lemma round_double_minus: "round_double (- x) = - round_double x"
  by (simp add: round_double_def binade_def round_ties_even_minus)

lemma round_double_mono:
  assumes "x \<le> y"
  shows "round_double x \<le> round_double y"
proof -
  consider "0 < x" | "x \<le> 0" "0 \<le> y" | "y < 0" by linarith
  then show ?thesis
  proof cases
    case 1
    then show ?thesis using assms by (rule round_double_mono_pos)
  next
    case 2
    have "round_double x \<le> 0"
    proof (cases "x = 0")
      case True
      then show ?thesis by (simp add: round_double_def)
    next
      case False
      then have "0 < - x" using 2 by simp
      then have "0 \<le> round_double (- x)" by (rule round_double_nonneg)
      then show ?thesis by (simp add: round_double_minus)
    qed
    moreover have "0 \<le> round_double y"
    proof (cases "y = 0")
      case True
      then show ?thesis by (simp add: round_double_def)
    next
      case False
      then have "0 < y" using 2 by simp
      then show ?thesis by (rule round_double_nonneg)
    qed
    ultimately show ?thesis by linarith
  next
    case 3
    then have "0 < - y" "- y \<le> - x" using assms by simp_all
    then have "round_double (- y) \<le> round_double (- x)" by (rule round_double_mono_pos)
    then show ?thesis by (simp add: round_double_minus)
  qed
qed

lemma round_double_binade:
  assumes "0 < x" and "- 1022 \<le> e"
    and "2 powr of_int e \<le> x" and "x < 2 powr (of_int e + 1)"
  shows "round_double x =
           of_int (round_ties_even (x / 2 powr (of_int e - 52))) * 2 powr (of_int e - 52)"
proof -
  have "\<lfloor>log 2 x\<rfloor> = e"
    using floor_log_eq_powr_iff [of x 2 e] assms by simp
  then have "binade x = e" using assms by (simp add: binade_def)
  then show ?thesis using round_double_pos [OF assms(1)] by simp
qed

lemma round_double_0 [simp]: "round_double 0 = 0"
  by (simp add: round_double_def)

lemma round_double_1 [simp]: "round_double 1 = 1"
  using round_double_binade [of 1 0] by (simp add: powr_minus)

lemma round_double_2 [simp]: "round_double 2 = 2"
  using round_double_binade [of 2 1] by (simp add: powr_minus)

lemma round_double_le_0: "x \<le> 0 \<Longrightarrow> round_double x \<le> 0"
  using round_double_mono [of x 0] by simp

lemma round_double_ge_1: "1 \<le> x \<Longrightarrow> 1 \<le> round_double x"
  using round_double_mono [of 1 x] by simp

lemma round_double_ge_2: "2 \<le> x \<Longrightarrow> 2 \<le> round_double x"
  using round_double_mono [of 2 x] by simp

subsection \<open>List operations of the state machine\<close>

lemma prioritize_loop_extract:
  "prioritize_loop passed cs =
     (case List.extract IsChangeLanePath cs of
        None \<Rightarrow> passed @ cs
      | Some (pre, c, post) \<Rightarrow> c # passed @ pre @ post)"
  by (induction cs arbitrary: passed)
     (simp_all add: extract_Nil_code extract_Cons_code split: option.splits)

lemma PrioritizeChangeLane_extract:
  "PrioritizeChangeLane cs =
     (case List.extract IsChangeLanePath cs of
        None \<Rightarrow> cs
      | Some (pre, c, post) \<Rightarrow> c # pre @ post)"
  by (simp add: PrioritizeChangeLane_def prioritize_loop_extract extract_Nil_code
        split: option.splits)

lemma RemoveChangeLane_filter:
  "RemoveChangeLane cs = filter (\<lambda>c. \<not> IsChangeLanePath c) cs"
  by (induction cs) simp_all

lemma GetCurrentPathId_find:
  "GetCurrentPathId cs =
     (case find (\<lambda>c. \<not> IsChangeLanePath c) cs of None \<Rightarrow> [] | Some c \<Rightarrow> Lanes_Id c)"
  by (induction cs) simp_all




lemma candidate_sel [simp]:
  "IsChangeLanePath (candidate c l) = c" "Lanes_Id (candidate c l) = l"
  by (simp_all add: candidate_def)

lemma stored_sel [simp]:
  "status (stored st p t) = Some st" "path_id (stored st p t) = p" "timestamp (stored st p t) = t"
  by (simp_all add: stored_def)

lemma flags_sel [simp]:
  "reckless_change_lane normal_flags = False"
  "change_lane_fail_freeze_time normal_flags = 2"
  "change_lane_success_freeze_time normal_flags = 2"
  "reckless_change_lane reckless_flags = True"
  by (simp_all add: normal_flags_def reckless_flags_def)

lemma UpdateStatus_stored [simp]:
  "UpdateStatus ts st p (stored st' p' ts') = stored st p ts"
  by (simp add: UpdateStatus_def stored_def)

subsection \<open>The clearance loop\<close>

lemma lateral_skip_obstacles [simp]:
  "lateral_skip (info\<lparr>obstacles := os\<rparr>) ob = lateral_skip info ob"
  by (simp add: lateral_skip_def obstacle_bounds_def)

lemma both_gaps_unsafe_obstacles [simp]:
  "both_gaps_unsafe N (info\<lparr>obstacles := os\<rparr>) ob = both_gaps_unsafe N info ob"
  by (simp add: both_gaps_unsafe_def obstacle_bounds_def)

lemma SetLaneChangeBlocking_append:
  "oid \<notin> ObstacleId ` set seen \<Longrightarrow>
   SetLaneChangeBlocking oid b (seen @ os) = seen @ SetLaneChangeBlocking oid b os"
  by (induction seen) auto

lemma ObstacleId_mark_clear [simp]: "ObstacleId (mark_clear info ob) = ObstacleId ob"
  by (simp add: mark_clear_def)

lemma clear_loop_general:
  assumes "distinct (map ObstacleId (seen @ todo))"
  shows "clear_loop N (info\<lparr>obstacles := seen @ todo\<rparr>)
           [length seen ..< length seen + length todo] =
         (case List.extract (blocks N info) todo of
            None \<Rightarrow> (True, info\<lparr>obstacles := seen @ map (mark_clear info) todo\<rparr>)
          | Some (pre, ob, post) \<Rightarrow>
              (False, info\<lparr>obstacles :=
                 seen @ map (mark_clear info) pre @ ob\<lparr>IsLaneChangeBlocking := True\<rparr> # post\<rparr>))"
  using assms
proof (induction todo arbitrary: seen)
  case Nil
  then show ?case by (simp add: extract_Nil_code)
next
  case (Cons ob rest)
  have idx: "[length seen ..< length seen + length (ob # rest)] =
             length seen # [length (seen @ [ob']) ..< length (seen @ [ob']) + length rest]" for ob'
    by (simp add: upt_rec)
  have nth: "(seen @ ob # rest) ! length seen = ob" by simp
  have notin: "ObstacleId ob \<notin> ObstacleId ` set seen"
    using Cons.prems by auto
  have wr: "SetLaneChangeBlocking (ObstacleId ob) b (seen @ ob # rest) =
            seen @ ob\<lparr>IsLaneChangeBlocking := b\<rparr> # rest" for b
    using notin by (simp add: SetLaneChangeBlocking_append)
  have dist: "distinct (map ObstacleId ((seen @ [mark_clear info ob]) @ rest))"
    using Cons.prems by simp
  note IH = Cons.IH [OF dist]
  show ?case
  proof (cases "evaluated info ob")
    case False
    then have skip: "IsVirtual ob \<or> IsStatic ob \<or> lateral_skip info ob"
      by (auto simp: evaluated_def)
    have mc: "mark_clear info ob = ob" using False by (simp add: mark_clear_def)
    have nb: "\<not> blocks N info ob" using False by (simp add: blocks_def)
    have step: "clear_loop N (info\<lparr>obstacles := seen @ ob # rest\<rparr>)
                  [length seen ..< length seen + length (ob # rest)] =
                clear_loop N (info\<lparr>obstacles := (seen @ [ob]) @ rest\<rparr>)
                  [length (seen @ [ob]) ..< length (seen @ [ob]) + length rest]"
      using skip by (subst idx [of ob]) (auto simp: nth)
    note step
    also have "clear_loop N (info\<lparr>obstacles := (seen @ [ob]) @ rest\<rparr>)
                  [length (seen @ [ob]) ..< length (seen @ [ob]) + length rest] =
               (case List.extract (blocks N info) rest of
                  None \<Rightarrow> (True, info\<lparr>obstacles := (seen @ [ob]) @ map (mark_clear info) rest\<rparr>)
                | Some (pre, b, post) \<Rightarrow>
                    (False, info\<lparr>obstacles :=
                       (seen @ [ob]) @ map (mark_clear info) pre
                         @ b\<lparr>IsLaneChangeBlocking := True\<rparr> # post\<rparr>))"
      using IH unfolding mc .
    also have "\<dots> =
               (case List.extract (blocks N info) (ob # rest) of
                  None \<Rightarrow> (True, info\<lparr>obstacles := seen @ map (mark_clear info) (ob # rest)\<rparr>)
                | Some (pre, b, post) \<Rightarrow>
                    (False, info\<lparr>obstacles :=
                       seen @ map (mark_clear info) pre
                         @ b\<lparr>IsLaneChangeBlocking := True\<rparr> # post\<rparr>))"
      using nb mc by (simp add: extract_Cons_code split: option.splits)
    finally show ?thesis .
  next
    case True
    then have ev: "\<not> IsVirtual ob" "\<not> IsStatic ob" "\<not> lateral_skip info ob"
      by (auto simp: evaluated_def)
    show ?thesis
    proof (cases "both_gaps_unsafe N info ob")
      case unsafe: True
      then have b: "blocks N info ob" using True by (simp add: blocks_def)
      show ?thesis
        using ev unsafe b by (subst idx [of ob]) (simp add: nth wr extract_Cons_code)
    next
      case safe: False
      then have nb: "\<not> blocks N info ob" by (simp add: blocks_def)
      have mc: "mark_clear info ob = ob\<lparr>IsLaneChangeBlocking := False\<rparr>"
        using True by (simp add: mark_clear_def)
      have step: "clear_loop N (info\<lparr>obstacles := seen @ ob # rest\<rparr>)
                    [length seen ..< length seen + length (ob # rest)] =
                  clear_loop N (info\<lparr>obstacles := (seen @ [mark_clear info ob]) @ rest\<rparr>)
                    [length (seen @ [mark_clear info ob]) ..<
                     length (seen @ [mark_clear info ob]) + length rest]"
        using ev safe by (subst idx [of "mark_clear info ob"]) (simp add: nth wr mc)
      note step
      also note IH
      also have "(case List.extract (blocks N info) rest of
                  None \<Rightarrow>
                    (True, info\<lparr>obstacles :=
                       (seen @ [mark_clear info ob]) @ map (mark_clear info) rest\<rparr>)
                | Some (pre, b, post) \<Rightarrow>
                    (False, info\<lparr>obstacles :=
                       (seen @ [mark_clear info ob]) @ map (mark_clear info) pre
                         @ b\<lparr>IsLaneChangeBlocking := True\<rparr> # post\<rparr>)) =
               (case List.extract (blocks N info) (ob # rest) of
                  None \<Rightarrow> (True, info\<lparr>obstacles := seen @ map (mark_clear info) (ob # rest)\<rparr>)
                | Some (pre, b, post) \<Rightarrow>
                    (False, info\<lparr>obstacles :=
                       seen @ map (mark_clear info) pre
                         @ b\<lparr>IsLaneChangeBlocking := True\<rparr> # post\<rparr>))"
        using nb by (simp add: extract_Cons_code split: option.splits)
      finally show ?thesis .
    qed
  qed
qed

lemma IsClearToChangeLane_extract:
  assumes "distinct (map ObstacleId (obstacles info))"
  shows "IsClearToChangeLane N info =
         (case List.extract (blocks N info) (obstacles info) of
            None \<Rightarrow> (True, info\<lparr>obstacles := map (mark_clear info) (obstacles info)\<rparr>)
          | Some (pre, ob, post) \<Rightarrow>
              (False, info\<lparr>obstacles :=
                 map (mark_clear info) pre @ ob\<lparr>IsLaneChangeBlocking := True\<rparr> # post\<rparr>))"
  using clear_loop_general [of "[]" "obstacles info" N info] assms
  by (simp add: IsClearToChangeLane_def split: option.splits)

lemma Apply_replay:
  "fst (snd (Apply flags now prev_status cs)) =
     replay_updates prev_status (Apply_updates flags now prev_status cs)"
  by (simp add: Apply_def Apply_updates_def Let_def split: option.splits)

lemma Apply_updates_length: "length (Apply_updates flags now prev_status cs) \<le> 1"
  by (simp add: Apply_updates_def Let_def split: option.splits)

lemma Apply_updates_now: "u \<in> set (Apply_updates flags now prev_status cs) \<Longrightarrow> fst u = now"
  by (auto simp add: Apply_updates_def Let_def split: option.splits if_splits)

lemma clear_loop_replay:
  "snd (clear_loop N info idxs) =
     info\<lparr>obstacles := replay_writes (obstacles info) (clear_loop_writes N info idxs)\<rparr>"
  by (induction idxs arbitrary: info) simp_all

lemma clear_loop_writes_general:
  assumes "distinct (map ObstacleId (seen @ todo))"
  shows "clear_loop_writes N (info\<lparr>obstacles := seen @ todo\<rparr>)
           [length seen ..< length seen + length todo] =
         (case List.extract (blocks N info) todo of
            None \<Rightarrow> map (\<lambda>ob. (ObstacleId ob, False)) (filter (evaluated info) todo)
          | Some (pre, ob, post) \<Rightarrow>
              map (\<lambda>ob. (ObstacleId ob, False)) (filter (evaluated info) pre)
                @ [(ObstacleId ob, True)])"
  using assms
proof (induction todo arbitrary: seen)
  case Nil
  then show ?case by (simp add: extract_Nil_code)
next
  case (Cons ob rest)
  have idx: "[length seen ..< length seen + length (ob # rest)] =
             length seen # [length (seen @ [ob']) ..< length (seen @ [ob']) + length rest]" for ob'
    by (simp add: upt_rec)
  have nth: "(seen @ ob # rest) ! length seen = ob" by simp
  have notin: "ObstacleId ob \<notin> ObstacleId ` set seen"
    using Cons.prems by auto
  have wr: "SetLaneChangeBlocking (ObstacleId ob) b (seen @ ob # rest) =
            seen @ ob\<lparr>IsLaneChangeBlocking := b\<rparr> # rest" for b
    using notin by (simp add: SetLaneChangeBlocking_append)
  have dist: "distinct (map ObstacleId ((seen @ [mark_clear info ob]) @ rest))"
    using Cons.prems by simp
  note IH = Cons.IH [OF dist]
  show ?case
  proof (cases "evaluated info ob")
    case False
    then have skip: "IsVirtual ob \<or> IsStatic ob \<or> lateral_skip info ob"
      by (auto simp: evaluated_def)
    have mc: "mark_clear info ob = ob" using False by (simp add: mark_clear_def)
    have nb: "\<not> blocks N info ob" using False by (simp add: blocks_def)
    have "clear_loop_writes N (info\<lparr>obstacles := seen @ ob # rest\<rparr>)
                  [length seen ..< length seen + length (ob # rest)] =
                clear_loop_writes N (info\<lparr>obstacles := (seen @ [ob]) @ rest\<rparr>)
                  [length (seen @ [ob]) ..< length (seen @ [ob]) + length rest]"
      using skip by (subst idx [of ob]) (auto simp: nth)
    also have "\<dots> = (case List.extract (blocks N info) rest of
            None \<Rightarrow> map (\<lambda>ob. (ObstacleId ob, False)) (filter (evaluated info) rest)
          | Some (pre, ob, post) \<Rightarrow>
              map (\<lambda>ob. (ObstacleId ob, False)) (filter (evaluated info) pre)
                @ [(ObstacleId ob, True)])"
      using IH unfolding mc .
    also have "\<dots> = (case List.extract (blocks N info) (ob # rest) of
            None \<Rightarrow> map (\<lambda>ob. (ObstacleId ob, False)) (filter (evaluated info) (ob # rest))
          | Some (pre, ob, post) \<Rightarrow>
              map (\<lambda>ob. (ObstacleId ob, False)) (filter (evaluated info) pre)
                @ [(ObstacleId ob, True)])"
      using nb False by (simp add: extract_Cons_code split: option.splits)
    finally show ?thesis .
  next
    case True
    then have ev: "\<not> IsVirtual ob" "\<not> IsStatic ob" "\<not> lateral_skip info ob"
      by (auto simp: evaluated_def)
    show ?thesis
    proof (cases "both_gaps_unsafe N info ob")
      case unsafe: True
      then have b: "blocks N info ob" using True by (simp add: blocks_def)
      show ?thesis
        using ev unsafe b by (subst idx [of ob]) (simp add: nth wr extract_Cons_code)
    next
      case safe: False
      then have nb: "\<not> blocks N info ob" by (simp add: blocks_def)
      have mc: "mark_clear info ob = ob\<lparr>IsLaneChangeBlocking := False\<rparr>"
        using True by (simp add: mark_clear_def)
      have "clear_loop_writes N (info\<lparr>obstacles := seen @ ob # rest\<rparr>)
                    [length seen ..< length seen + length (ob # rest)] =
                  (ObstacleId ob, False) #
                  clear_loop_writes N (info\<lparr>obstacles := (seen @ [mark_clear info ob]) @ rest\<rparr>)
                    [length (seen @ [mark_clear info ob]) ..<
                     length (seen @ [mark_clear info ob]) + length rest]"
        using ev safe by (subst idx [of "mark_clear info ob"]) (simp add: nth wr mc)
      also have "\<dots> = (ObstacleId ob, False) #
          (case List.extract (blocks N info) rest of
            None \<Rightarrow> map (\<lambda>ob. (ObstacleId ob, False)) (filter (evaluated info) rest)
          | Some (pre, ob, post) \<Rightarrow>
              map (\<lambda>ob. (ObstacleId ob, False)) (filter (evaluated info) pre)
                @ [(ObstacleId ob, True)])"
        using IH by simp
      also have "\<dots> = (case List.extract (blocks N info) (ob # rest) of
            None \<Rightarrow> map (\<lambda>ob. (ObstacleId ob, False)) (filter (evaluated info) (ob # rest))
          | Some (pre, ob, post) \<Rightarrow>
              map (\<lambda>ob. (ObstacleId ob, False)) (filter (evaluated info) pre)
                @ [(ObstacleId ob, True)])"
        using nb True by (simp add: extract_Cons_code split: option.splits)
      finally show ?thesis .
    qed
  qed
qed

lemma IsClearToChangeLane_writes_distinct:
  assumes "distinct (map ObstacleId (obstacles info))"
  shows "distinct (map fst (IsClearToChangeLane_writes N info))"
proof (cases "List.extract (blocks N info) (obstacles info)")
  case None
  have "IsClearToChangeLane_writes N info =
          map (\<lambda>ob. (ObstacleId ob, False)) (filter (evaluated info) (obstacles info))"
    using clear_loop_writes_general [of "[]" "obstacles info" N info] assms None
    by (simp add: IsClearToChangeLane_writes_def)
  then show ?thesis
    using assms by (simp add: comp_def distinct_map_filter)
next
  case (Some t)
  obtain pre ob post where t: "t = (pre, ob, post)" by (cases t)
  have split: "obstacles info = pre @ ob # post"
    using Some t by (auto dest: extract_SomeE)
  have "IsClearToChangeLane_writes N info =
          map (\<lambda>ob. (ObstacleId ob, False)) (filter (evaluated info) pre) @ [(ObstacleId ob, True)]"
    using clear_loop_writes_general [of "[]" "obstacles info" N info] assms Some t
    by (simp add: IsClearToChangeLane_writes_def)
  moreover have "distinct (map ObstacleId (filter (evaluated info) pre))"
    using assms split by (simp add: distinct_map_filter)
  moreover have "ObstacleId ob \<notin> ObstacleId ` set pre"
    using assms split by auto
  ultimately show ?thesis
    by (auto simp: comp_def)
qed

subsection \<open>Sample inputs\<close>

lemma DBL_MAX_large: "1000 < DBL_MAX" "- DBL_MAX < - 1000"
  by (simp_all add: DBL_MAX_def)

lemma scene_sel [simp]:
  "IsChangeLanePath (scene c os) = c"
  "obstacles (scene c os) = os"
  "XYToSL (scene c os) = (\<lambda>p. p)"
  "start_s (AdcSlBoundary (scene c os)) = 10"
  "end_s (AdcSlBoundary (scene c os)) = 15"
  "linear_velocity (vehicle_state (scene c os)) = 5"
  "(scene c os)\<lparr>obstacles := os'\<rparr> = scene c os'"
  by (simp_all add: scene_def)

lemma moving_obstacle_sel [simp]:
  "ObstacleId (moving_obstacle i s1 s2 l b) = i"
  "IsVirtual (moving_obstacle i s1 s2 l b) = False"
  "IsStatic (moving_obstacle i s1 s2 l b) = False"
  "PerceptionPolygon (moving_obstacle i s1 s2 l b) = [(s1, l), (s2, l)]"
  "Trajectory (moving_obstacle i s1 s2 l b) = []"
  "speed (moving_obstacle i s1 s2 l b) = 5"
  "IsLaneChangeBlocking (moving_obstacle i s1 s2 l b) = b"
  "(moving_obstacle i s1 s2 l b)\<lparr>IsLaneChangeBlocking := b'\<rparr> = moving_obstacle i s1 s2 l b'"
  by (simp_all add: moving_obstacle_def)

lemma obstacle_bounds_sample:
  "\<bar>s1\<bar> \<le> 1000 \<Longrightarrow> \<bar>s2\<bar> \<le> 1000 \<Longrightarrow> \<bar>l\<bar> \<le> 1000 \<Longrightarrow>
   obstacle_bounds (scene c os) (moving_obstacle i s1 s2 l b) = (min s1 s2, max s1 s2, l, l)"
  using DBL_MAX_large by (auto simp add: obstacle_bounds_def min_def max_def)

lemma sample_speed_term: "dmul (dsub 5 5) 3 = 0"
  by (simp add: dmul_def dsub_def)

lemma sample_far: "\<not> both_gaps_unsafe (\<lambda>a. a) (scene c os) (moving_obstacle i 100 104 0 b)"
proof -
  have "dadd 6 (1 / 2) \<le> dsub 100 15" "dsub 6 (1 / 2) \<le> dsub 100 15"
    unfolding dadd_def dsub_def by (rule round_double_mono, simp)+
  then show ?thesis
    by (simp add: both_gaps_unsafe_def obstacle_bounds_sample same_direction_def
        kForwardSafeDistance_def kBackwardSafeDistance_def kDistanceBuffer_def HysteresisFilter_def
        sample_speed_term)
qed

lemma sample_near:
  assumes "\<bar>l\<bar> \<le> 1000"
  shows "both_gaps_unsafe (\<lambda>a. a) (scene c os) (moving_obstacle i 12 18 l b)"
proof -
  have neg: "dsub 10 18 \<le> 0" "dsub 12 15 \<le> 0"
    unfolding dsub_def by (rule round_double_le_0, simp)+
  have pos: "1 \<le> dadd 8 (1 / 2)" "1 \<le> dsub 8 (1 / 2)" "1 \<le> dadd 6 (1 / 2)" "1 \<le> dsub 6 (1 / 2)"
    unfolding dadd_def dsub_def by (rule round_double_ge_1, simp)+
  have lt: "dsub 10 18 < dadd 8 (1 / 2)" "dsub 10 18 < dsub 8 (1 / 2)"
    "dsub 12 15 < dadd 6 (1 / 2)" "dsub 12 15 < dsub 6 (1 / 2)"
    using neg pos by linarith+
  show ?thesis
    using assms lt
    by (simp add: both_gaps_unsafe_def obstacle_bounds_sample same_direction_def
        kForwardSafeDistance_def kBackwardSafeDistance_def kDistanceBuffer_def HysteresisFilter_def
        sample_speed_term)
qed

lemma sample_elapsed [simp]:
  "\<not> dsub 10 0 < 2" "dsub 1 0 < 2" "\<not> dsub (21 / 10) 0 < 2"
  using round_double_ge_2 [of 10] round_double_ge_2 [of "21 / 10"]
  by (simp_all add: dsub_def)

lemma sample_sum: "dadd double_0_1 double_0_7 = double_0_1_plus_0_7"
  using round_double_binade [of "double_0_1 + double_0_7" "- 1"]
  by (simp add: dadd_def double_0_1_def double_0_7_def double_0_1_plus_0_7_def powr_minus
        round_ties_even_def)

lemma sample_difference: "dsub double_2_001 double_0_001 = 2"
  using round_double_binade [of "double_2_001 - double_0_001" 0]
  by (simp add: dsub_def double_2_001_def double_0_001_def powr_minus round_ties_even_def)

lemma sample_halves: "dadd 6 (1 / 2) = 13 / 2" "dsub 6 (1 / 2) = 11 / 2"
  using round_double_binade [of "13 / 2" 2] round_double_binade [of "11 / 2" 2]
  by (simp_all add: dadd_def dsub_def powr_minus round_ties_even_def)

lemma sample_evaluated:
  "evaluated (scene False os) (moving_obstacle i s1 s2 l b)"
  by (simp add: evaluated_def lateral_skip_def split: prod.splits)

lemma sample_skipped:
  "lateral_skip (scene True os) (moving_obstacle i 12 18 5 b)"
  by (simp add: lateral_skip_def obstacle_bounds_sample kLateralShift_def)

section \<open>Properties of the state machine\<close>




text \<open>
  C2, the code at a concrete input. Phase FAILED recorded at time 0, failure freeze
  time 2, clock 2.1, candidates \<open>A\<close> (current, not a change-lane path) and \<open>B\<close>
  (change-lane): \<^verbatim>\<open>Apply\<close> succeeds and records IN_CHANGE_LANE with path id \<open>A\<close>,
  but the sequence is left in its order of entry; \<open>B\<close> is not moved to the front.
\<close>

theorem Apply_failed_expired_keeps_order:
  "Apply normal_flags (21 / 10) (stored CHANGE_LANE_FAILED ''A'' 0)
     [candidate False ''A'', candidate True ''B'']
   = (Inr (), stored IN_CHANGE_LANE ''A'' (21 / 10),
      [candidate False ''A'', candidate True ''B''])
   \<and> [candidate False ''A'', candidate True ''B'']
       \<noteq> [candidate True ''B'', candidate False ''A'']"
  by (simp add: Apply_def Let_def candidate_def)

text \<open>
  C3, as amended. With the reckless flag set, on every non-empty candidate sequence
  \<^verbatim>\<open>Apply\<close> returns success, leaves the persisted status untouched and moves the
  first change-lane candidate to the front, the others keeping their order (the
  sequence is unchanged when there is none). The emptiness check comes before the
  reckless check: on the empty sequence \<^verbatim>\<open>Apply\<close> fails with the empty-input signal
  in reckless mode too, status and sequence untouched.
\<close>

theorem Apply_reckless:
  assumes "reckless_change_lane flags"
  shows "(cs \<noteq> [] \<longrightarrow>
            Apply flags now prev_status cs =
              (Inr (), prev_status,
               case List.extract IsChangeLanePath cs of
                 None \<Rightarrow> cs
               | Some (pre, c, post) \<Rightarrow> c # pre @ post))
       \<and> Apply flags now prev_status [] = (Inl EmptyInput, prev_status, [])"
  using assms by (simp add: Apply_def PrioritizeChangeLane_extract)

text \<open>
  The amended C3 at concrete inputs: three candidates, the second and third
  change-lane paths; and the empty sequence.
\<close>

theorem Apply_reckless_witness:
  "Apply reckless_flags 1 (stored CHANGE_LANE_FAILED ''A'' 0)
     [candidate False ''A'', candidate True ''B'', candidate True ''C'']
   = (Inr (), stored CHANGE_LANE_FAILED ''A'' 0,
      [candidate True ''B'', candidate False ''A'', candidate True ''C''])
   \<and> Apply reckless_flags 1 (stored CHANGE_LANE_FAILED ''A'' 0) []
   = (Inl EmptyInput, stored CHANGE_LANE_FAILED ''A'' 0, [])"
  using Apply_reckless [of reckless_flags
      "[candidate False ''A'', candidate True ''B'', candidate True ''C'']" 1
      "stored CHANGE_LANE_FAILED ''A'' 0"]
  by (simp add: extract_Cons_code extract_Nil_code)

text \<open>
  C3 as stated fails on the empty sequence: in reckless mode \<^verbatim>\<open>Apply\<close> does not
  return success there.
\<close>

theorem Apply_reckless_empty_fails:
  "reckless_change_lane reckless_flags
   \<and> fst (Apply reckless_flags 0 unset_status []) = Inl EmptyInput
   \<and> fst (Apply reckless_flags 0 unset_status []) \<noteq> Inr ()"
  by (simp add: Apply_def)

text \<open>
  C6. Phase IN_CHANGE_LANE, more than one candidate, and a current candidate \<open>cur\<close>
  (the first that is not a change-lane path, with a non-empty lane id), outside
  reckless mode. If the persisted path id is the id of \<open>cur\<close>, \<^verbatim>\<open>Apply\<close> returns
  success, leaves the status as it was and moves the first change-lane candidate to
  the front. Otherwise it returns success, removes every change-lane candidate and
  records SUCCESS with the id of \<open>cur\<close> at the clock reading.
\<close>

theorem Apply_in_progress:
  assumes "\<not> reckless_change_lane flags"
    and "status prev_status = Some IN_CHANGE_LANE"
    and "1 < length cs"
    and "find (\<lambda>c. \<not> IsChangeLanePath c) cs = Some cur"
    and "Lanes_Id cur \<noteq> []"
  shows "(path_id prev_status = Lanes_Id cur \<longrightarrow>
            Apply flags now prev_status cs =
              (Inr (), prev_status,
               case List.extract IsChangeLanePath cs of
                 None \<Rightarrow> cs
               | Some (pre, c, post) \<Rightarrow> c # pre @ post))
       \<and> (path_id prev_status \<noteq> Lanes_Id cur \<longrightarrow>
            Apply flags now prev_status cs =
              (Inr (),
               \<lparr>status = Some CHANGE_LANE_SUCCESS, path_id = Lanes_Id cur, timestamp = now\<rparr>,
               filter (\<lambda>c. \<not> IsChangeLanePath c) cs))"
proof -
  have ne: "cs \<noteq> []" using assms(3) by auto
  have cur: "GetCurrentPathId cs = Lanes_Id cur"
    using assms(4) by (simp add: GetCurrentPathId_find)
  show ?thesis
    using assms ne cur
    by (simp add: Apply_def RemoveChangeLane_filter PrioritizeChangeLane_extract UpdateStatus_def)
qed

text \<open>
  C6 at concrete inputs: candidates \<open>A\<close> (current) and \<open>B\<close> (change-lane), first with
  persisted path id \<open>A\<close>, then with persisted path id \<open>Z\<close>.
\<close>

theorem Apply_in_progress_witness:
  "Apply normal_flags 7 (stored IN_CHANGE_LANE ''A'' 3)
     [candidate False ''A'', candidate True ''B'']
   = (Inr (), stored IN_CHANGE_LANE ''A'' 3, [candidate True ''B'', candidate False ''A''])
   \<and> Apply normal_flags 7 (stored IN_CHANGE_LANE ''Z'' 3)
     [candidate False ''A'', candidate True ''B'']
   = (Inr (), stored CHANGE_LANE_SUCCESS ''A'' 7, [candidate False ''A''])"
  using Apply_in_progress [of normal_flags "stored IN_CHANGE_LANE ''A'' 3"
      "[candidate False ''A'', candidate True ''B'']" "candidate False ''A''" 7]
    Apply_in_progress [of normal_flags "stored IN_CHANGE_LANE ''Z'' 3"
      "[candidate False ''A'', candidate True ''B'']" "candidate False ''A''" 7]
  by (simp add: extract_Cons_code extract_Nil_code stored_def)

text \<open>
  C7, as amended. Phase FAILED, more than one candidate, a current candidate \<open>cur\<close>
  (the first that is not a change-lane path, with a non-empty lane id), and the
  elapsed time as the code computes it, the double difference of the clock reading
  and the failure timestamp, strictly below the failure freeze time, outside reckless
  mode: \<^verbatim>\<open>Apply\<close> returns success, removes every change-lane candidate and leaves the
  persisted status (phase, path id, timestamp) as it was.
\<close>

theorem Apply_failed_cooldown:
  assumes "\<not> reckless_change_lane flags"
    and "status prev_status = Some CHANGE_LANE_FAILED"
    and "1 < length cs"
    and "find (\<lambda>c. \<not> IsChangeLanePath c) cs = Some cur"
    and "Lanes_Id cur \<noteq> []"
    and "dsub now (timestamp prev_status) < change_lane_fail_freeze_time flags"
  shows "Apply flags now prev_status cs =
           (Inr (), prev_status, filter (\<lambda>c. \<not> IsChangeLanePath c) cs)"
proof -
  have ne: "cs \<noteq> []" using assms(3) by auto
  have cur: "GetCurrentPathId cs = Lanes_Id cur"
    using assms(4) by (simp add: GetCurrentPathId_find)
  show ?thesis
    using assms ne cur by (simp add: Apply_def RemoveChangeLane_filter)
qed

text \<open>
  The amended C7 at a concrete input: failure recorded at time 0, freeze time 2,
  clock 1, candidates \<open>A\<close> and \<open>B\<close> (change-lane).
\<close>

theorem Apply_failed_cooldown_witness:
  "dsub 1 (timestamp (stored CHANGE_LANE_FAILED ''A'' 0))
     < change_lane_fail_freeze_time normal_flags
   \<and> Apply normal_flags 1 (stored CHANGE_LANE_FAILED ''A'' 0)
     [candidate False ''A'', candidate True ''B'']
   = (Inr (), stored CHANGE_LANE_FAILED ''A'' 0, [candidate False ''A''])"
  using Apply_failed_cooldown [of normal_flags "stored CHANGE_LANE_FAILED ''A'' 0"
      "[candidate False ''A'', candidate True ''B'']" "candidate False ''A''" 1]
  by simp

text \<open>
  C7 as stated fails when the exact elapsed time is below the freeze time but its
  double difference is not. Failure recorded at the double nearest 0.001, clock at
  the double nearest 2.001, freeze time 2: the exact difference is below 2, the
  subtraction returns 2, and \<^verbatim>\<open>Apply\<close> takes the retry branch: it records
  IN_CHANGE_LANE at the clock reading and keeps the change-lane candidate \<open>B\<close>.
\<close>

theorem Apply_failed_cooldown_rounding_counterexample:
  "double_2_001 - timestamp (stored CHANGE_LANE_FAILED ''A'' double_0_001)
     < change_lane_fail_freeze_time normal_flags
   \<and> Apply normal_flags double_2_001 (stored CHANGE_LANE_FAILED ''A'' double_0_001)
     [candidate False ''A'', candidate True ''B'']
   = (Inr (), stored IN_CHANGE_LANE ''A'' double_2_001,
      [candidate False ''A'', candidate True ''B''])
   \<and> stored IN_CHANGE_LANE ''A'' double_2_001 \<noteq> stored CHANGE_LANE_FAILED ''A'' double_0_001
   \<and> [candidate False ''A'', candidate True ''B''] \<noteq> [candidate False ''A'']"
proof -
  have "double_2_001 - double_0_001 < 2"
    by (simp add: double_2_001_def double_0_001_def)
  moreover have "Apply normal_flags double_2_001 (stored CHANGE_LANE_FAILED ''A'' double_0_001)
       [candidate False ''A'', candidate True ''B'']
     = (Inr (), stored IN_CHANGE_LANE ''A'' double_2_001,
        [candidate False ''A'', candidate True ''B''])"
    by (simp add: Apply_def Let_def sample_difference)
  moreover have "stored IN_CHANGE_LANE ''A'' double_2_001
       \<noteq> stored CHANGE_LANE_FAILED ''A'' double_0_001"
    by (simp add: stored_def)
  ultimately show ?thesis by simp
qed

text \<open>
  C8. On the empty candidate sequence \<^verbatim>\<open>Apply\<close> fails with the empty-input signal and
  leaves the persisted status and the sequence as they were, whatever the persisted
  phase and the flags.
\<close>

theorem Apply_empty:
  "Apply flags now prev_status [] = (Inl EmptyInput, prev_status, [])"
  by (simp add: Apply_def)

text \<open>
  C10. Phase unset, a non-empty sequence in which every candidate is a change-lane
  path, outside reckless mode: \<^verbatim>\<open>Apply\<close> does not fail; it returns success and
  records SUCCESS with the empty path id at the clock reading, the sequence left as
  it was.
\<close>

theorem Apply_bootstrap_all_change_lane:
  assumes "\<not> reckless_change_lane flags"
    and "status prev_status = None"
    and "cs \<noteq> []"
    and "\<forall>c\<in>set cs. IsChangeLanePath c"
  shows "Apply flags now prev_status cs =
           (Inr (),
            \<lparr>status = Some CHANGE_LANE_SUCCESS, path_id = [], timestamp = now\<rparr>,
            cs)"
proof -
  have "find (\<lambda>c. \<not> IsChangeLanePath c) cs = None"
    using assms(4) by (simp add: find_None_iff)
  then have "GetCurrentPathId cs = []"
    by (simp add: GetCurrentPathId_find)
  then show ?thesis
    using assms by (simp add: Apply_def UpdateStatus_def)
qed

text \<open>C10 at a concrete input: two candidates, both change-lane paths, clock 4.\<close>

theorem Apply_bootstrap_all_change_lane_witness:
  "Apply normal_flags 4 unset_status [candidate True ''B'', candidate True ''C'']
   = (Inr (), \<lparr>status = Some CHANGE_LANE_SUCCESS, path_id = [], timestamp = 4\<rparr>,
      [candidate True ''B'', candidate True ''C''])"
  using Apply_bootstrap_all_change_lane [of normal_flags unset_status
      "[candidate True ''B'', candidate True ''C'']" 4]
  by (simp add: unset_status_def)

section \<open>Properties of the hysteresis filter\<close>

text \<open>
  C5, as amended. The two thresholds are the double sum and the double difference of
  the safe distance and the buffer, as the code computes them. For every gap, safe
  distance and non-negative buffer, the filter with the blocking memory set answers
  whether the gap is below the double sum, with the memory clear whether the gap is
  below the double difference; the two answers differ exactly when the gap lies in
  the band from the double difference (included) to the double sum (excluded), and
  outside that band the answer does not depend on the memory.
\<close>

theorem HysteresisFilter_band:
  assumes "0 \<le> buffer"
  shows "HysteresisFilter gap safe buffer True = (gap < dadd safe buffer)
       \<and> HysteresisFilter gap safe buffer False = (gap < dsub safe buffer)
       \<and> ((HysteresisFilter gap safe buffer True \<noteq> HysteresisFilter gap safe buffer False)
            = (dsub safe buffer \<le> gap \<and> gap < dadd safe buffer))
       \<and> (\<not> (dsub safe buffer \<le> gap \<and> gap < dadd safe buffer)
            \<longrightarrow> HysteresisFilter gap safe buffer w1 = HysteresisFilter gap safe buffer w2)"
proof -
  have "safe - buffer \<le> safe + buffer" using assms by simp
  then have "dsub safe buffer \<le> dadd safe buffer"
    unfolding dsub_def dadd_def by (rule round_double_mono)
  then show ?thesis
    unfolding HysteresisFilter_def by auto
qed

text \<open>
  The amended C5 at concrete inputs. Safe distance 6 and buffer 0.5: gap 6 lies in the
  band (the answers differ), gaps 5 and 7 lie outside it (the answers agree). Safe
  distance 0.1, buffer 0.7 and the gap equal to the double sum of the two: the gap is
  not below the double sum, so the answer is no with either memory.
\<close>

theorem HysteresisFilter_band_witness:
  "(0::real) \<le> 1 / 2
   \<and> HysteresisFilter 6 6 (1 / 2) True \<and> \<not> HysteresisFilter 6 6 (1 / 2) False
   \<and> HysteresisFilter 5 6 (1 / 2) True \<and> HysteresisFilter 5 6 (1 / 2) False
   \<and> \<not> HysteresisFilter 7 6 (1 / 2) True \<and> \<not> HysteresisFilter 7 6 (1 / 2) False
   \<and> 0 \<le> double_0_7
   \<and> \<not> HysteresisFilter double_0_1_plus_0_7 double_0_1 double_0_7 True
   \<and> \<not> HysteresisFilter double_0_1_plus_0_7 double_0_1 double_0_7 False"
proof -
  have b: "0 \<le> double_0_7" by (simp add: double_0_7_def)
  have "double_0_1 - double_0_7 \<le> 0" by (simp add: double_0_1_def double_0_7_def)
  then have "dsub double_0_1 double_0_7 \<le> 0"
    unfolding dsub_def by (rule round_double_le_0)
  moreover have "0 < double_0_1_plus_0_7" by (simp add: double_0_1_plus_0_7_def)
  ultimately have lo: "\<not> double_0_1_plus_0_7 < dsub double_0_1 double_0_7" by linarith
  show ?thesis
    using HysteresisFilter_band [of "1 / 2" 6 6] HysteresisFilter_band [of "1 / 2" 5 6]
      HysteresisFilter_band [of "1 / 2" 7 6]
      HysteresisFilter_band [OF b, of double_0_1_plus_0_7 double_0_1] b lo
    by (simp add: sample_halves sample_sum)
qed

text \<open>
  C5 as stated, with the exact sum, fails: for safe distance 0.1, buffer 0.7 and the
  gap that \<^verbatim>\<open>0.1 + 0.7\<close> returns, the gap is below the exact sum of safe distance and
  buffer, yet the filter with the blocking memory set answers no.
\<close>

theorem HysteresisFilter_exact_sum_counterexample:
  "0 \<le> double_0_7
   \<and> double_0_1_plus_0_7 < double_0_1 + double_0_7
   \<and> \<not> HysteresisFilter double_0_1_plus_0_7 double_0_1 double_0_7 True"
proof -
  have "0 \<le> double_0_7" by (simp add: double_0_7_def)
  moreover have "double_0_1_plus_0_7 < double_0_1 + double_0_7"
    by (simp add: double_0_1_def double_0_7_def double_0_1_plus_0_7_def)
  moreover have "\<not> HysteresisFilter double_0_1_plus_0_7 double_0_1 double_0_7 True"
    by (simp add: HysteresisFilter_def sample_sum)
  ultimately show ?thesis by simp
qed

section \<open>Properties of the clearance check\<close>

text \<open>
  C4, as amended. Let the obstacles of the candidate have distinct identifiers.
  \<^verbatim>\<open>IsClearToChangeLane\<close> goes over them in order. An obstacle is evaluated when it is
  not virtual, not static and, on a change-lane candidate, not wholly outside the
  lateral corridor of half-width 2.5; an evaluated obstacle blocks exactly when the
  backward-gap check and the forward-gap check both judge the gap unsafe, each with
  the obstacle's stored flag as memory.
  If no evaluated obstacle blocks, the result is true and every evaluated obstacle has
  its flag set false, the others being left as they were. Otherwise, at the first
  evaluated obstacle that blocks, its flag is set true and the result is false; the
  evaluated obstacles before it have their flag set false, and the obstacles after it,
  like the obstacles passed over, are left as they were.
\<close>

theorem IsClearToChangeLane_first_blocking:
  assumes "distinct (map ObstacleId (obstacles info))"
  shows "((\<forall>ob\<in>set (obstacles info). evaluated info ob \<longrightarrow> \<not> both_gaps_unsafe N info ob) \<longrightarrow>
            IsClearToChangeLane N info =
              (True, info\<lparr>obstacles := map (mark_clear info) (obstacles info)\<rparr>))
       \<and> (\<forall>pre ob post.
            obstacles info = pre @ ob # post
            \<and> (\<forall>x\<in>set pre. evaluated info x \<longrightarrow> \<not> both_gaps_unsafe N info x)
            \<and> evaluated info ob \<and> both_gaps_unsafe N info ob \<longrightarrow>
            IsClearToChangeLane N info =
              (False, info\<lparr>obstacles :=
                 map (mark_clear info) pre @ ob\<lparr>IsLaneChangeBlocking := True\<rparr> # post\<rparr>))"
proof (intro conjI allI impI)
  assume "\<forall>ob\<in>set (obstacles info). evaluated info ob \<longrightarrow> \<not> both_gaps_unsafe N info ob"
  then have "List.extract (blocks N info) (obstacles info) = None"
    by (auto simp: extract_None_iff blocks_def)
  then show "IsClearToChangeLane N info =
      (True, info\<lparr>obstacles := map (mark_clear info) (obstacles info)\<rparr>)"
    by (simp add: IsClearToChangeLane_extract [OF assms])
next
  fix pre ob post
  assume a: "obstacles info = pre @ ob # post
            \<and> (\<forall>x\<in>set pre. evaluated info x \<longrightarrow> \<not> both_gaps_unsafe N info x)
            \<and> evaluated info ob \<and> both_gaps_unsafe N info ob"
  then have "List.extract (blocks N info) (obstacles info) = Some (pre, ob, post)"
    by (auto simp: extract_Some_iff blocks_def)
  then show "IsClearToChangeLane N info =
      (False, info\<lparr>obstacles :=
         map (mark_clear info) pre @ ob\<lparr>IsLaneChangeBlocking := True\<rparr> # post\<rparr>)"
    by (simp add: IsClearToChangeLane_extract [OF assms])
qed

text \<open>
  The amended C4 at concrete inputs, on a candidate that is not a change-lane path,
  the ego vehicle between \<open>s = 10\<close> and \<open>s = 15\<close>. First three moving obstacles: one far
  ahead (flag set on entry), one alongside (flag clear on entry), one far ahead (flag
  set on entry). The second blocks: the result is false, the first flag is cleared,
  the second is set, the third is not written. Then the far obstacle alone: the
  result is true and its flag is cleared.
\<close>

theorem IsClearToChangeLane_first_blocking_witness:
  "IsClearToChangeLane (\<lambda>a. a)
     (scene False [moving_obstacle ''o1'' 100 104 0 True, moving_obstacle ''o2'' 12 18 0 False,
                   moving_obstacle ''o3'' 100 104 0 True])
   = (False,
      scene False [moving_obstacle ''o1'' 100 104 0 False, moving_obstacle ''o2'' 12 18 0 True,
                   moving_obstacle ''o3'' 100 104 0 True])
   \<and> IsClearToChangeLane (\<lambda>a. a) (scene False [moving_obstacle ''o1'' 100 104 0 True])
   = (True, scene False [moving_obstacle ''o1'' 100 104 0 False])"
proof -
  let ?o1 = "moving_obstacle ''o1'' 100 104 0 True"
  let ?o2 = "moving_obstacle ''o2'' 12 18 0 False"
  let ?o3 = "moving_obstacle ''o3'' 100 104 0 True"
  have A: "IsClearToChangeLane (\<lambda>a. a) (scene False [?o1, ?o2, ?o3])
             = (False, scene False [moving_obstacle ''o1'' 100 104 0 False,
                  moving_obstacle ''o2'' 12 18 0 True, ?o3])"
    using IsClearToChangeLane_first_blocking [of "scene False [?o1, ?o2, ?o3]" "\<lambda>a. a",
        THEN conjunct2, rule_format, of "[?o1]" ?o2 "[?o3]"]
    by (simp add: sample_far sample_near sample_evaluated mark_clear_def)
  have B: "IsClearToChangeLane (\<lambda>a. a) (scene False [?o1])
             = (True, scene False [moving_obstacle ''o1'' 100 104 0 False])"
    using IsClearToChangeLane_first_blocking [of "scene False [?o1]" "\<lambda>a. a",
        THEN conjunct1]
    by (simp add: sample_far sample_evaluated mark_clear_def)
  show ?thesis using A B by simp
qed

text \<open>
  C4 as stated fails on a change-lane candidate. The moving obstacle alongside the
  ego vehicle at lateral offset 5 is neither virtual nor static and both gap checks
  judge it unsafe, yet the scan passes it over: the result is true and its flag,
  set on entry, is not written.
\<close>

theorem IsClearToChangeLane_corridor_counterexample:
  "\<not> IsVirtual (moving_obstacle ''o1'' 12 18 5 True)
   \<and> \<not> IsStatic (moving_obstacle ''o1'' 12 18 5 True)
   \<and> both_gaps_unsafe (\<lambda>a. a) (scene True [moving_obstacle ''o1'' 12 18 5 True])
        (moving_obstacle ''o1'' 12 18 5 True)
   \<and> IsClearToChangeLane (\<lambda>a. a) (scene True [moving_obstacle ''o1'' 12 18 5 True])
       = (True, scene True [moving_obstacle ''o1'' 12 18 5 True])"
  by (simp add: sample_near sample_skipped IsClearToChangeLane_def)

section \<open>Properties of the writes\<close>

text \<open>
  C9, as amended. In every cycle \<^verbatim>\<open>Apply\<close> calls \<^verbatim>\<open>UpdateStatus\<close> at most once, and each
  call carries the clock reading of the cycle; the status it leaves is the status of
  entry with these calls replayed. So when no call is made (a failure, reckless mode,
  the keep and cooldown branches) the persisted status is exactly as it was, also
  after a success, and when a call is made the persisted timestamp is the clock
  reading. \<^verbatim>\<open>IsClearToChangeLane\<close>, on obstacles with distinct identifiers, writes the
  blocking flag of each obstacle at most once, and the candidate it leaves is the
  candidate of entry with these writes replayed on its obstacles.
\<close>

theorem status_and_flags_written_at_most_once:
  assumes "distinct (map ObstacleId (obstacles info))"
  shows "length (Apply_updates flags now prev_status cs) \<le> 1
       \<and> (\<forall>u\<in>set (Apply_updates flags now prev_status cs). fst u = now)
       \<and> fst (snd (Apply flags now prev_status cs))
           = replay_updates prev_status (Apply_updates flags now prev_status cs)
       \<and> (Apply_updates flags now prev_status cs = [] \<longrightarrow>
            fst (snd (Apply flags now prev_status cs)) = prev_status)
       \<and> (Apply_updates flags now prev_status cs \<noteq> [] \<longrightarrow>
            timestamp (fst (snd (Apply flags now prev_status cs))) = now)
       \<and> distinct (map fst (IsClearToChangeLane_writes N info))
       \<and> snd (IsClearToChangeLane N info)
           = info\<lparr>obstacles :=
               replay_writes (obstacles info) (IsClearToChangeLane_writes N info)\<rparr>"
proof -
  have a: "length (Apply_updates flags now prev_status cs) \<le> 1"
    by (rule Apply_updates_length)
  have a': "\<forall>u\<in>set (Apply_updates flags now prev_status cs). fst u = now"
    using Apply_updates_now by blast
  have b: "fst (snd (Apply flags now prev_status cs))
           = replay_updates prev_status (Apply_updates flags now prev_status cs)"
    by (rule Apply_replay)
  have c: "Apply_updates flags now prev_status cs = [] \<longrightarrow>
            fst (snd (Apply flags now prev_status cs)) = prev_status"
    by (simp add: b)
  have d: "Apply_updates flags now prev_status cs \<noteq> [] \<longrightarrow>
            timestamp (fst (snd (Apply flags now prev_status cs))) = now"
    by (simp add: Apply_def Apply_updates_def Let_def UpdateStatus_def split: option.splits)
  have e: "distinct (map fst (IsClearToChangeLane_writes N info))"
    by (rule IsClearToChangeLane_writes_distinct [OF assms])
  have f: "snd (IsClearToChangeLane N info)
           = info\<lparr>obstacles :=
               replay_writes (obstacles info) (IsClearToChangeLane_writes N info)\<rparr>"
    by (simp add: IsClearToChangeLane_def IsClearToChangeLane_writes_def clear_loop_replay)
  show ?thesis using a a' b c d e f by blast
qed

text \<open>
  The amended C9 at concrete inputs. Phase IN_CHANGE_LANE with another path id: one
  update, the timestamp becomes the clock reading 7. Phase FAILED within the cooldown:
  no update, the status is as it was. The three obstacles of the clearance example:
  no identifier is written twice.
\<close>

theorem status_and_flags_written_at_most_once_witness:
  "Apply_updates normal_flags 7 (stored IN_CHANGE_LANE ''Z'' 3)
       [candidate False ''A'', candidate True ''B''] = [(7, CHANGE_LANE_SUCCESS, ''A'')]
   \<and> timestamp (fst (snd (Apply normal_flags 7 (stored IN_CHANGE_LANE ''Z'' 3)
       [candidate False ''A'', candidate True ''B'']))) = 7
   \<and> Apply_updates normal_flags 1 (stored CHANGE_LANE_FAILED ''A'' 0)
       [candidate False ''A'', candidate True ''B''] = []
   \<and> fst (snd (Apply normal_flags 1 (stored CHANGE_LANE_FAILED ''A'' 0)
       [candidate False ''A'', candidate True ''B''])) = stored CHANGE_LANE_FAILED ''A'' 0
   \<and> distinct (map fst (IsClearToChangeLane_writes (\<lambda>a. a)
       (scene False [moving_obstacle ''o1'' 100 104 0 True, moving_obstacle ''o2'' 12 18 0 False,
                     moving_obstacle ''o3'' 100 104 0 True])))"
proof -
  let ?cs = "[candidate False ''A'', candidate True ''B'']"
  let ?info = "scene False [moving_obstacle ''o1'' 100 104 0 True,
      moving_obstacle ''o2'' 12 18 0 False, moving_obstacle ''o3'' 100 104 0 True]"
  have ids: "distinct (map ObstacleId (obstacles ?info))" by simp
  have u1: "Apply_updates normal_flags 7 (stored IN_CHANGE_LANE ''Z'' 3) ?cs
              = [(7, CHANGE_LANE_SUCCESS, ''A'')]"
    by (simp add: Apply_updates_def Let_def)
  have u2: "Apply_updates normal_flags 1 (stored CHANGE_LANE_FAILED ''A'' 0) ?cs = []"
    by (simp add: Apply_updates_def Let_def)
  show ?thesis
    using status_and_flags_written_at_most_once
            [OF ids, of normal_flags 7 "stored IN_CHANGE_LANE ''Z'' 3" ?cs "\<lambda>a. a"]
          status_and_flags_written_at_most_once
            [OF ids, of normal_flags 1 "stored CHANGE_LANE_FAILED ''A'' 0" ?cs "\<lambda>a. a"]
          u1 u2
    by simp
qed

text \<open>
  C9 as stated fails: with phase FAILED recorded at time 0, freeze time 2 and clock 1,
  \<^verbatim>\<open>Apply\<close> succeeds and the persisted timestamp is still 0, not the clock reading.
\<close>

theorem Apply_success_keeps_old_timestamp:
  "fst (Apply normal_flags 1 (stored CHANGE_LANE_FAILED ''A'' 0)
          [candidate False ''A'', candidate True ''B'']) = Inr ()
   \<and> timestamp (fst (snd (Apply normal_flags 1 (stored CHANGE_LANE_FAILED ''A'' 0)
          [candidate False ''A'', candidate True ''B'']))) = 0
   \<and> timestamp (fst (snd (Apply normal_flags 1 (stored CHANGE_LANE_FAILED ''A'' 0)
          [candidate False ''A'', candidate True ''B'']))) \<noteq> 1"
  by (simp add: Apply_def Let_def)

end
